theory Spec2Isabelle
  imports Complex_Main
begin

section \<open>Numbers, arrays and errors\<close>

text \<open>
  The source is Python 2 with numpy. Python floats and numpy float64 values are
  modelled as real numbers (no rounding, no overflow). A one-dimensional numpy array
  is a list. The one thing of floating point the model keeps is that a division by
  zero on numpy values does not raise: numpy stores inf or nan (with a RuntimeWarning)
  and goes on. Such a value is no real number; the model writes it \<open>None\<close> and does
  not follow it further: every operation on \<open>None\<close> gives \<open>None\<close>, and an operation
  that would store it into a coordinate array of the beam ends with \<open>NonFinite\<close>.
  Scalars that reach the tracking code from the ring and from the beam are taken to be
  numpy values (they are read out of numpy arrays), so their division by zero does not
  raise either.
\<close>

datatype error =
    AttributeError string   \<comment> \<open>the named attribute is not set on the object\<close>
  | IndexError
  | ValueError              \<comment> \<open>numpy: negative dimension, shapes that do not broadcast\<close>
  | ZeroDivisionError       \<comment> \<open>division of a Python float by a Python int zero\<close>
  | SystemExit string       \<comment> \<open>the text printed just before \<open>sys.exit()\<close>\<close>
  | NonFinite               \<comment> \<open>an inf or nan would be stored: outside the model\<close>

type_synonym fl = "real option"

definition fadd :: "fl \<Rightarrow> fl \<Rightarrow> fl" where
  "fadd a b = (case (a, b) of (Some x, Some y) \<Rightarrow> Some (x + y) | _ \<Rightarrow> None)"

definition fsub :: "fl \<Rightarrow> fl \<Rightarrow> fl" where
  "fsub a b = (case (a, b) of (Some x, Some y) \<Rightarrow> Some (x - y) | _ \<Rightarrow> None)"

definition fmul :: "fl \<Rightarrow> fl \<Rightarrow> fl" where
  "fmul a b = (case (a, b) of (Some x, Some y) \<Rightarrow> Some (x * y) | _ \<Rightarrow> None)"

definition fdiv :: "fl \<Rightarrow> fl \<Rightarrow> fl" where
  "fdiv a b = (case (a, b) of
                 (Some x, Some y) \<Rightarrow> if y = 0 then None else Some (x / y)
               | _ \<Rightarrow> None)"

definition fsqrt :: "fl \<Rightarrow> fl" where
  "fsqrt a = (case a of Some x \<Rightarrow> Some (sqrt x) | None \<Rightarrow> None)"

text \<open>The physical constants of \<open>scipy.constants\<close>: \<open>c\<close> and \<open>e\<close>.\<close>

definition c :: real where
  "c = 299792458"

definition e :: real where
  "e = 1602176634 / 10 ^ 28"

text \<open>
  Elementwise binary operation of numpy on two one-dimensional arrays: equal lengths
  go index by index, an array of length one is broadcast, any other pair of lengths
  raises ValueError.
\<close>

definition np_binop :: "('a \<Rightarrow> 'b \<Rightarrow> 'c) \<Rightarrow> 'a list \<Rightarrow> 'b list \<Rightarrow> error + 'c list" where
  "np_binop f xs ys =
     (if length xs = length ys then Inr (map2 f xs ys)
      else if length ys = 1 then Inr (map (\<lambda>x. f x (hd ys)) xs)
      else if length xs = 1 then Inr (map (\<lambda>y. f (hd xs) y) ys)
      else Inl ValueError)"

text \<open>
  The in-place form \<open>xs += ys\<close>: the result must have the shape of \<open>xs\<close>, so only
  \<open>ys\<close> may be broadcast.
\<close>

definition np_iadd :: "real list \<Rightarrow> real list \<Rightarrow> error + real list" where
  "np_iadd xs ys =
     (if length xs = length ys then Inr (map2 (+) xs ys)
      else if length ys = 1 then Inr (map (\<lambda>x. x + hd ys) xs)
      else Inl ValueError)"

text \<open>Storing a computed array into the beam: every entry has to be a real number.\<close>

definition store :: "fl list \<Rightarrow> error + real list" where
  "store xs = (if None \<in> set xs then Inl NonFinite else Inr (map the xs))"

text \<open>Reading an attribute that an object may lack.\<close>

definition attr :: "string \<Rightarrow> 'a option \<Rightarrow> error + 'a" where
  "attr name v = (case v of None \<Rightarrow> Inl (AttributeError name) | Some x \<Rightarrow> Inr x)"

text \<open>Sequencing of computations that may raise.\<close>

definition and_then :: "error + 'a \<Rightarrow> ('a \<Rightarrow> error + 'b) \<Rightarrow> error + 'b" where
  "and_then m f = (case m of Inl err \<Rightarrow> Inl err | Inr x \<Rightarrow> f x)"

text \<open>
  \<open>a[idx] = 0\<close> with an array of indices: numpy checks every index against the
  length of \<open>a\<close> first and raises IndexError if one is out of range.
\<close>

definition np_set_zero :: "int list \<Rightarrow> nat list \<Rightarrow> error + int list" where
  "np_set_zero a idx =
     (if \<forall>i \<in> set idx. i < length a then Inr (fold (\<lambda>i a'. a'[i := 0]) idx a)
      else Inl IndexError)"

text \<open>\<open>a[idx]\<close> with an array of indices, the same check.\<close>

definition np_take :: "'a list \<Rightarrow> nat list \<Rightarrow> error + 'a list" where
  "np_take a idx =
     (if \<forall>i \<in> set idx. i < length a then Inr (map (\<lambda>i. a ! i) idx)
      else Inl IndexError)"

text \<open>\<open>np.where(cond)[0]\<close>: the indices at which the condition array is true.\<close>

definition np_where :: "bool list \<Rightarrow> nat list" where
  "np_where cond = filter (\<lambda>i. cond ! i) [0..<length cond]"

text \<open>
  \<open>np.mean\<close> and \<open>np.std\<close> (population standard deviation, \<open>ddof = 0\<close>). On an
  empty array both give nan.
\<close>

definition np_mean :: "real list \<Rightarrow> fl" where
  "np_mean xs = (if xs = [] then None else Some (sum_list xs / real (length xs)))"

definition np_std :: "real list \<Rightarrow> fl" where
  "np_std xs =
     (case np_mean xs of
        None \<Rightarrow> None
      | Some m \<Rightarrow> fsqrt (np_mean (map (\<lambda>x. \<bar>x - m\<bar> ^ 2) xs)))"

section \<open>The beam\<close>

text \<open>
  The attributes that \<open>Beam.__init__\<close> sets are plain fields. \<open>epsn_rms_l\<close> is set
  by \<open>statistics\<close> only. \<open>theta\<close>, \<open>delta\<close>, \<open>z\<close> and \<open>dp\<close> are read by the
  trackers and set by nothing in \<open>Beam\<close>: a Python object gets such an attribute only
  when somebody assigns it, so they are optional here. The field \<open>id\<close> of the source
  is \<open>id_arr\<close>.
\<close>

record beam =
  mass :: real
  charge :: int
  beta :: real
  gamma :: real
  energy :: real
  momentum :: real
  dt :: "real list"
  dE :: "real list"
  mean_dt :: fl
  mean_dE :: fl
  sigma_dt :: fl
  sigma_dE :: fl
  intensity :: real
  n_macroparticles :: int
  ratio :: real
  n_macroparticles_lost :: int
  id_arr :: "int list"
  epsn_rms_l :: "fl option"
  theta :: "real list option"
  delta :: "real list option"
  z :: "real list option"
  dp :: "real list option"

text \<open>
  The configuration object handed to the constructor; only the attributes that the
  constructor reads. The four sampled quantities are two-dimensional.
\<close>

record general_parameters =
  gp_mass :: real
  gp_charge :: int
  gp_beta :: "real list list"
  gp_gamma :: "real list list"
  gp_energy :: "real list list"
  gp_momentum :: "real list list"

definition index00 :: "'a list list \<Rightarrow> error + 'a" where
  "index00 a = (case a of [] \<Rightarrow> Inl IndexError
                | row # _ \<Rightarrow> (case row of [] \<Rightarrow> Inl IndexError | x # _ \<Rightarrow> Inr x))"

text \<open>\<open>int(x)\<close> on a number: truncation towards zero.\<close>

definition py_int :: "real \<Rightarrow> int" where
  "py_int x = (if 0 \<le> x then \<lfloor>x\<rfloor> else \<lceil>x\<rceil>)"

text \<open>\<open>np.zeros([n])\<close>: numpy refuses a negative length.\<close>

definition np_zeros :: "int \<Rightarrow> error + real list" where
  "np_zeros n = (if n < 0 then Inl ValueError else Inr (replicate (nat n) 0))"

text \<open>\<open>x / n\<close> for a Python float \<open>x\<close> and a Python int \<open>n\<close> (true division).\<close>

definition py_div :: "real \<Rightarrow> int \<Rightarrow> error + real" where
  "py_div x n = (if n = 0 then Inl ZeroDivisionError else Inr (x / real_of_int n))"

text \<open>
  \<open>Beam.__init__\<close>. The particle count is what the caller passes (an int, or a float
  such as \<open>1e6\<close> in the docstring's example), the intensity a Python float as the
  docstring says. The statements run in the order of the source; the ratio is the
  quotient of the Python float \<open>self.intensity\<close> by the Python int
  \<open>self.n_macroparticles\<close>. \<open>np.arange(1, n + 1)\<close> is the list \<open>[1..n]\<close>.
\<close>

definition Beam_init :: "general_parameters \<Rightarrow> real \<Rightarrow> real \<Rightarrow> error + beam" where
  "Beam_init GeneralParameters n_macroparticles' intensity' =
     and_then (index00 (gp_beta GeneralParameters)) (\<lambda>beta0.
     and_then (index00 (gp_gamma GeneralParameters)) (\<lambda>gamma0.
     and_then (index00 (gp_energy GeneralParameters)) (\<lambda>energy0.
     and_then (index00 (gp_momentum GeneralParameters)) (\<lambda>momentum0.
     and_then (np_zeros (py_int n_macroparticles')) (\<lambda>dt0.
     and_then (np_zeros (py_int n_macroparticles')) (\<lambda>dE0.
     and_then (py_div intensity' (py_int n_macroparticles')) (\<lambda>ratio0.
       Inr \<lparr> mass = gp_mass GeneralParameters,
             charge = gp_charge GeneralParameters,
             beta = beta0, gamma = gamma0, energy = energy0, momentum = momentum0,
             dt = dt0,
             dE = dE0,
             mean_dt = Some 0, mean_dE = Some 0, sigma_dt = Some 0, sigma_dE = Some 0,
             intensity = intensity',
             n_macroparticles = py_int n_macroparticles',
             ratio = ratio0,
             n_macroparticles_lost = 0,
             id_arr = [1..py_int n_macroparticles'],
             epsn_rms_l = None,
             theta = None, delta = None, z = None, dp = None \<rparr>)))))))"

definition n_macroparticles_alive :: "beam \<Rightarrow> int" where
  "n_macroparticles_alive self = n_macroparticles self - n_macroparticles_lost self"

text \<open>
  \<open>statistics\<close>. The index array comes from \<open>id\<close> and is used on \<open>dt\<close> and \<open>dE\<close>.
\<close>

definition statistics :: "beam \<Rightarrow> error + beam" where
  "statistics self =
     (let itemindex = np_where (map (\<lambda>i. i \<noteq> 0) (id_arr self)) in
      and_then (np_take (dt self) itemindex) (\<lambda>dt_alive.
      and_then (np_take (dE self) itemindex) (\<lambda>dE_alive.
        let s_dt = np_std dt_alive; s_dE = np_std dE_alive in
        Inr (self\<lparr> mean_dt := np_mean dt_alive,
                   mean_dE := np_mean dE_alive,
                   sigma_dt := s_dt,
                   sigma_dE := s_dE,
                   epsn_rms_l := Some (fmul (fmul (Some pi) s_dE) s_dt),
                   n_macroparticles_lost :=
                     int (length (np_where (map (\<lambda>i. i = 0) (id_arr self)))) \<rparr>))))"

text \<open>The two cuts. The index array comes from \<open>dt\<close> (or \<open>dE\<close>) and is used on \<open>id\<close>.\<close>

definition losses_longitudinal_cut :: "beam \<Rightarrow> real \<Rightarrow> real \<Rightarrow> error + beam" where
  "losses_longitudinal_cut self dt_min dt_max =
     (let itemindex = np_where (map (\<lambda>x. (x - dt_min) * (dt_max - x) < 0) (dt self)) in
      if length itemindex \<noteq> 0
      then and_then (np_set_zero (id_arr self) itemindex) (\<lambda>a. Inr (self\<lparr>id_arr := a\<rparr>))
      else Inr self)"

definition losses_energy_cut :: "beam \<Rightarrow> real \<Rightarrow> real \<Rightarrow> error + beam" where
  "losses_energy_cut self dE_min dE_max =
     (let itemindex = np_where (map (\<lambda>x. (x - dE_min) * (dE_max - x) < 0) (dE self)) in
      if length itemindex \<noteq> 0
      then and_then (np_set_zero (id_arr self) itemindex) (\<lambda>a. Inr (self\<lparr>id_arr := a\<rparr>))
      else Inr self)"

section \<open>The ring\<close>

text \<open>
  Modelled from the spec: the ring and RF configuration (\<open>trackers.ring_and_RFstation\<close>)
  is not part of the sources at hand. It is a parameter here: the attributes that the
  trackers read, the mutable turn counter, and its four methods as functions. What the
  momenta and the methods return may depend on the ring's state, that is on the turn
  counter, so each takes the counter's value as its first argument. The attribute
  \<open>length\<close> is \<open>ring_length\<close>; \<open>_eta0\<close> is \<open>eta0_fn\<close>.
\<close>

record ring =
  harmonic :: "real list"
  voltage :: "real list"
  phi_offset :: "real list"
  circumference :: real
  ring_length :: real
  alpha_array :: "real list"
  counter :: int
  p0_i_fn :: "int \<Rightarrow> real"
  p0_f_fn :: "int \<Rightarrow> real"
  beta_i_fn :: "int \<Rightarrow> beam \<Rightarrow> real"
  beta_f_fn :: "int \<Rightarrow> beam \<Rightarrow> real"
  eta_fn :: "int \<Rightarrow> beam \<Rightarrow> real list \<Rightarrow> real list"
  eta0_fn :: "int \<Rightarrow> beam \<Rightarrow> real list \<Rightarrow> real"



definition beta_i :: "ring \<Rightarrow> beam \<Rightarrow> real" where
  "beta_i r b = beta_i_fn r (counter r) b"

definition beta_f :: "ring \<Rightarrow> beam \<Rightarrow> real" where
  "beta_f r b = beta_f_fn r (counter r) b"

definition eta :: "ring \<Rightarrow> beam \<Rightarrow> real list \<Rightarrow> real list" where
  "eta r b d = eta_fn r (counter r) b d"

definition eta0 :: "ring \<Rightarrow> beam \<Rightarrow> real list \<Rightarrow> real" where
  "eta0 r b a = eta0_fn r (counter r) b a"

text \<open>\<open>a[i]\<close> for a Python int \<open>i\<close>: a negative index counts from the end.\<close>

definition py_index :: "'a list \<Rightarrow> int \<Rightarrow> error + 'a" where
  "py_index a i =
     (let n = int (length a); j = (if i < 0 then n + i else i)
      in if 0 \<le> j \<and> j < n then Inr (a ! nat j) else Inl IndexError)"

section \<open>The tracking elements\<close>

text \<open>
  The elements keep a reference to the ring they were built with. The ring is one
  shared object, so the model hands its current state to every \<open>track\<close> together with
  the beam and does not copy it into the elements.
\<close>

record kick =
  k_harmonic :: real
  k_voltage :: real
  k_phi_offset :: real

definition Kick_init :: "ring \<Rightarrow> int \<Rightarrow> error + kick" where
  "Kick_init r i =
     and_then (py_index (harmonic r) i) (\<lambda>h.
     and_then (py_index (voltage r) i) (\<lambda>v.
     and_then (py_index (phi_offset r) i) (\<lambda>p.
       Inr \<lparr> k_harmonic = h, k_voltage = v, k_phi_offset = p \<rparr>)))"

definition Kick_track :: "kick \<Rightarrow> beam \<Rightarrow> error + beam" where
  "Kick_track self b =
     and_then (attr ''theta'' (theta b)) (\<lambda>th.
     and_then (np_iadd (dE b)
                 (map (\<lambda>t. e * k_voltage self * sin (k_harmonic self * t + k_phi_offset self)) th))
       (\<lambda>dE'. Inr (b\<lparr>dE := dE'\<rparr>)))"

record kick_acceleration =
  p_increment :: real


definition Kick_acceleration_track :: "kick_acceleration \<Rightarrow> beam \<times> ring \<Rightarrow> beam \<times> ring" where
  "Kick_acceleration_track self s =
     (case s of (b, r) \<Rightarrow>
        (b\<lparr>dE := map (\<lambda>x. x + - (beta_i r b + beta_f r b) / 2 * c * p_increment self) (dE b)\<rparr>,
         r\<lparr>counter := counter r + 1\<rparr>))"

record drift =
  solver :: string

definition Drift_init :: "ring \<Rightarrow> string \<Rightarrow> drift" where
  "Drift_init r sv = \<lparr> solver = sv \<rparr>"

text \<open>
  \<open>Drift.track\<close> builds a dictionary with both formulas as values and then looks the
  solver up in it: both formulas are computed on every call, whatever the solver, and
  an exception of either one leaves the method before the lookup. Only the KeyError of
  the lookup is caught; the handler prints and calls \<open>sys.exit()\<close>.
\<close>

definition drift_full :: "beam \<Rightarrow> ring \<Rightarrow> error + fl list" where
  "drift_full b r =
     (let q = fdiv (Some (beta_f r b)) (Some (beta_i r b)) in
      and_then (attr ''theta'' (theta b)) (\<lambda>th.
      and_then (attr ''delta'' (delta b)) (\<lambda>de.
      and_then (np_binop (*) (eta r b de) de) (\<lambda>ed.
        np_binop fadd
          (map (\<lambda>t. fmul q (Some t)) th)
          (map (\<lambda>x. fdiv (fmul (fmul (Some (2 * pi))
                                  (fsub (fdiv (Some 1) (Some (1 - x))) (Some 1)))
                            (Some (ring_length r)))
                      (Some (circumference r))) ed)))))"

definition drift_simple :: "beam \<Rightarrow> ring \<Rightarrow> error + fl list" where
  "drift_simple b r =
     and_then (attr ''theta'' (theta b)) (\<lambda>th.
     and_then (attr ''delta'' (delta b)) (\<lambda>de.
       np_binop fadd
         (map Some th)
         (map (\<lambda>d. fdiv (Some (2 * pi * eta0 r b (alpha_array r) * d * ring_length r))
                     (Some (circumference r))) de)))"

definition Drift_track :: "drift \<Rightarrow> beam \<times> ring \<Rightarrow> error + beam \<times> ring" where
  "Drift_track self s =
     (case s of (b, r) \<Rightarrow>
        and_then (drift_full b r) (\<lambda>full.
        and_then (drift_simple b r) (\<lambda>simple.
          if solver self = ''full''
          then and_then (store full) (\<lambda>th'. Inr (b\<lparr>theta := Some th'\<rparr>, r))
          else if solver self = ''simple''
          then and_then (store simple) (\<lambda>th'. Inr (b\<lparr>theta := Some th'\<rparr>, r))
          else Inl (SystemExit
                 ''ERROR: Choice of longitudinal solver not recognized! Aborting...''))))"

section \<open>The per-turn pipeline\<close>

text \<open>
  The list \<open>elements\<close> holds the tracker's Kick objects, the very Kick\_acceleration
  object that \<open>self.kick_acceleration\<close> names, and a Drift. The middle entry is
  therefore a reference (\<open>E_Kick_acceleration\<close>): what \<open>track\<close> writes into
  \<open>self.kick_acceleration.p_increment\<close> is what the list's entry then uses.
\<close>

datatype element = E_Kick kick | E_Kick_acceleration | E_Drift drift

record longitudinal_tracker =
  t_solver :: string
  harmonic_list :: "real list"
  voltage_list :: "real list"
  t_circumference :: real
  kicks :: "kick list"
  kick_acceleration :: kick_acceleration
  elements :: "element list"







section \<open>The linear map\<close>

record linear_map =
  lm_circumference :: real
  alpha :: real
  Qs :: real

definition LinearMap_init :: "real \<Rightarrow> real \<Rightarrow> real \<Rightarrow> linear_map" where
  "LinearMap_init circumference' alpha' Qs' =
     \<lparr> lm_circumference = circumference', alpha = alpha', Qs = Qs' \<rparr>"

text \<open>
  \<open>LinearMap.track\<close>. The scalars come first, then the two attribute reads, then the
  new \<open>z\<close> is computed and assigned, then the new \<open>dp\<close>, both from the old arrays.
  \<open>x ** -2\<close> is \<open>1 / x\<^sup>2\<close>. The two results have the same pair of operand shapes,
  so the second cannot raise when the first did not.
\<close>

definition LinearMap_track :: "linear_map \<Rightarrow> beam \<Rightarrow> error + beam" where
  "LinearMap_track self b =
     (let eta' = fsub (Some (alpha self)) (fdiv (Some 1) (Some ((gamma b) ^ 2)));
          omega_0 = fdiv (Some (2 * pi * beta b * c)) (Some (lm_circumference self));
          omega_s = fmul (Some (Qs self)) omega_0;
          dQs = 2 * pi * Qs self;
          cosdQs = cos dQs;
          sindQs = sin dQs
      in and_then (attr ''z'' (z b)) (\<lambda>z0.
         and_then (attr ''dp'' (dp b)) (\<lambda>dp0.
         and_then (np_binop fsub
                     (map (\<lambda>x. Some (x * cosdQs)) z0)
                     (map (\<lambda>y. fmul (fmul (fdiv (fmul eta' (Some c)) omega_s) (Some y))
                                  (Some sindQs)) dp0)) (\<lambda>z1.
         and_then (np_binop fadd
                     (map (\<lambda>y. Some (y * cosdQs)) dp0)
                     (map (\<lambda>x. fmul (fmul (fdiv (fdiv omega_s eta') (Some c)) (Some x))
                                  (Some sindQs)) z0)) (\<lambda>dp1.
         and_then (store z1) (\<lambda>z'.
         and_then (store dp1) (\<lambda>dp'.
           Inr (b\<lparr>z := Some z', dp := Some dp'\<rparr>))))))))"

section \<open>Inputs for the examples\<close>

text \<open>
  A beam with the given coordinate arrays and identifiers, all particles of it as the
  constructor leaves them otherwise.
\<close>

definition particles :: "real list \<Rightarrow> real list \<Rightarrow> int list \<Rightarrow> beam" where
  "particles dts dEs ids =
     \<lparr> mass = 1, charge = 1, beta = 1 / 2, gamma = 2, energy = 2, momentum = 1,
       dt = dts, dE = dEs,
       mean_dt = Some 0, mean_dE = Some 0, sigma_dt = Some 0, sigma_dE = Some 0,
       intensity = 1, n_macroparticles = int (length ids), ratio = 1,
       n_macroparticles_lost = 0, id_arr = ids, epsn_rms_l = None,
       theta = None, delta = None, z = None, dp = None \<rparr>"

text \<open>A configuration with one sample of each quantity, matching \<open>particles\<close>.\<close>

definition sample_parameters :: general_parameters where
  "sample_parameters =
     \<lparr> gp_mass = 1, gp_charge = 1, gp_beta = [[1 / 2]], gp_gamma = [[2]],
       gp_energy = [[2]], gp_momentum = [[1]] \<rparr>"

text \<open>
  A ring with one RF system. Its momenta follow the turn counter; its slip factor is
  \<open>1/2\<close> for every particle.
\<close>

definition sample_ring :: ring where
  "sample_ring =
     \<lparr> harmonic = [1], voltage = [3], phi_offset = [0],
       circumference = 2, ring_length = 1, alpha_array = [1 / 2], counter = 0,
       p0_i_fn = (\<lambda>n. real_of_int n), p0_f_fn = (\<lambda>n. real_of_int n + 1),
       beta_i_fn = (\<lambda>n b. 1 / 2), beta_f_fn = (\<lambda>n b. 1 / 2),
       eta_fn = (\<lambda>n b d. map (\<lambda>x. 1 / 2) d), eta0_fn = (\<lambda>n b a. 1 / 2) \<rparr>"

text \<open>A beam of two particles that carries the phase coordinates of the trackers.\<close>

definition sample_beam :: beam where
  "sample_beam =
     (particles [0, 0] [1, 2] [1, 2])\<lparr>theta := Some [0, 1], delta := Some [1, - 1]\<rparr>"

text \<open>A linear map of a quarter turn per call, and a beam with its coordinates.\<close>

definition sample_map :: linear_map where
  "sample_map = LinearMap_init 2 1 (1 / 4)"

definition position_beam :: beam where
  "position_beam = (particles [0, 0] [1, 2] [1, 2])\<lparr>z := Some [1, 0], dp := Some [0, 1]\<rparr>"

section \<open>The statistics as the specification words them\<close>

text \<open>
  The alive particles are the indices whose identifier is not zero; mean and population
  standard deviation are taken over that set of indices.
\<close>

definition alive :: "beam \<Rightarrow> nat set" where
  "alive b = {i. i < length (id_arr b) \<and> id_arr b ! i \<noteq> 0}"

definition mean_over :: "nat set \<Rightarrow> real list \<Rightarrow> real" where
  "mean_over A xs = (\<Sum>i \<in> A. xs ! i) / real (card A)"

definition std_over :: "nat set \<Rightarrow> real list \<Rightarrow> real" where
  "std_over A xs = sqrt ((\<Sum>i \<in> A. (xs ! i - mean_over A xs)\<^sup>2) / real (card A))"

section \<open>The turn as the specification words it\<close>




section \<open>Sequencing\<close>

lemma and_then_simps [simp]:
  "and_then (Inl err) f = Inl err"
  "and_then (Inr x) f = f x"
  by (simp_all add: and_then_def)

lemma and_then_Inr_iff:
  "and_then m f = Inr y \<longleftrightarrow> (\<exists>x. m = Inr x \<and> f x = Inr y)"
  by (cases m) simp_all

section \<open>Arithmetic on values that may be non-finite\<close>

lemma fl_Some [simp]:
  "fadd (Some x) (Some y) = Some (x + y)"
  "fsub (Some x) (Some y) = Some (x - y)"
  "fmul (Some x) (Some y) = Some (x * y)"
  "y \<noteq> 0 \<Longrightarrow> fdiv (Some x) (Some y) = Some (x / y)"
  by (simp_all add: fadd_def fsub_def fmul_def fdiv_def)

lemma np_binop_maps:
  "length xs = length ys \<Longrightarrow>
   np_binop f (map g xs) (map h ys) = Inr (map (\<lambda>i. f (g (xs ! i)) (h (ys ! i))) [0..<length xs])"
  by (auto simp: np_binop_def intro!: nth_equalityI)

section \<open>Index arrays\<close>

lemma fold_zero_length: "length (fold (\<lambda>i a'. a'[i := (0::int)]) idx a) = length a"
  by (induction idx arbitrary: a) simp_all

lemma fold_zero_nth:
  "j < length a \<Longrightarrow>
   fold (\<lambda>i a'. a'[i := (0::int)]) idx a ! j = (if j \<in> set idx then 0 else a ! j)"
proof (induction idx arbitrary: a)
  case Nil
  then show ?case by simp
next
  case (Cons i idx)
  then show ?case by (cases "i = j") auto
qed

lemma set_np_where: "set (np_where cond) = {i. i < length cond \<and> cond ! i}"
  by (auto simp: np_where_def)

lemma np_set_zero_where:
  assumes "length xs = length a"
  shows "np_set_zero a (np_where (map P xs)) = Inr (map2 (\<lambda>x i. if P x then 0 else i) xs a)"
proof -
  let ?idx = "np_where (map P xs)"
  have in_range: "\<forall>i \<in> set ?idx. i < length a"
    using assms by (simp add: set_np_where)
  have "fold (\<lambda>i a'. a'[i := 0]) ?idx a = map2 (\<lambda>x i. if P x then 0 else i) xs a"
    using assms by (intro nth_equalityI) (auto simp: fold_zero_length fold_zero_nth set_np_where)
  with in_range show ?thesis
    by (simp add: np_set_zero_def)
qed

lemma np_where_empty_map2:
  assumes "length xs = length a" and "np_where (map P xs) = []"
  shows "map2 (\<lambda>x i. if P x then 0 else i) xs a = a"
proof -
  have "\<forall>i < length xs. \<not> P (xs ! i)"
    using assms(2) set_np_where [of "map P xs"] by auto
  with assms(1) show ?thesis
    by (intro nth_equalityI) auto
qed

section \<open>The loss cuts\<close>

lemma cut_sign: "((x::real) - lo) * (hi - x) < 0 \<longleftrightarrow> x < min lo hi \<or> max lo hi < x"
  by (auto simp: mult_less_0_iff min_def max_def)

lemma longitudinal_cut_eq:
  assumes "length (dt b) = length (id_arr b)"
  shows "losses_longitudinal_cut b lo hi =
         Inr (b\<lparr>id_arr := map2 (\<lambda>x i. if (x - lo) * (hi - x) < 0 then 0 else i)
                             (dt b) (id_arr b)\<rparr>)"
  using assms np_where_empty_map2 [OF assms, of "\<lambda>x. (x - lo) * (hi - x) < 0"]
  by (simp add: losses_longitudinal_cut_def Let_def and_then_def np_set_zero_where)

lemma energy_cut_eq:
  assumes "length (dE b) = length (id_arr b)"
  shows "losses_energy_cut b lo hi =
         Inr (b\<lparr>id_arr := map2 (\<lambda>x i. if (x - lo) * (hi - x) < 0 then 0 else i)
                             (dE b) (id_arr b)\<rparr>)"
  using assms np_where_empty_map2 [OF assms, of "\<lambda>x. (x - lo) * (hi - x) < 0"]
  by (simp add: losses_energy_cut_def Let_def and_then_def np_set_zero_where)

text \<open>
  Claim C1. On a beam whose three arrays have one length (every beam of the
  constructor), \<open>losses_longitudinal_cut\<close> returns the beam with \<open>id\<close> changed and
  nothing else: the entry of a particle is 0 where
  \<open>(dt[i] - dt_min) * (dt_max - dt[i]) < 0\<close> and is the old entry everywhere else, so
  a particle on either bound keeps its identifier. \<open>losses_energy_cut\<close> does the same
  with \<open>dE\<close>. The product is negative exactly when the coordinate lies below both
  bounds or above both, that is strictly outside the closed interval that the two bounds
  span; with a minimum \<open>dt_min\<close> and a maximum \<open>dt_max\<close> (\<open>dt_min \<le> dt_max\<close>) that
  is the closed interval from \<open>dt_min\<close> to \<open>dt_max\<close>.
\<close>

theorem losses_cut_marks_outside:
  assumes "length (dt b) = length (id_arr b)"
    and "length (dE b) = length (id_arr b)"
  shows "losses_longitudinal_cut b dt_min dt_max =
           Inr (b\<lparr>id_arr := map2 (\<lambda>x i. if (x - dt_min) * (dt_max - x) < 0 then 0 else i)
                               (dt b) (id_arr b)\<rparr>)
       \<and> losses_energy_cut b dE_min dE_max =
           Inr (b\<lparr>id_arr := map2 (\<lambda>x i. if (x - dE_min) * (dE_max - x) < 0 then 0 else i)
                               (dE b) (id_arr b)\<rparr>)
       \<and> (\<forall>x lo hi :: real. ((x - lo) * (hi - x) < 0) = (x < min lo hi \<or> max lo hi < x))
       \<and> (\<forall>x lo hi :: real. lo \<le> hi \<longrightarrow> ((x - lo) * (hi - x) < 0) = (x \<notin> {lo..hi}))"
proof -
  have "\<forall>x lo hi :: real. lo \<le> hi \<longrightarrow> ((x - lo) * (hi - x) < 0) = (x \<notin> {lo..hi})"
    by (auto simp: cut_sign)
  then show ?thesis
    using assms by (simp add: longitudinal_cut_eq energy_cut_eq cut_sign)
qed

theorem losses_cut_marks_outside_witness:
  "length (dt (particles [1, 3, 0, 4] [0, 0, 0, 0] [1, 2, 3, 4])) = 4
   \<and> losses_longitudinal_cut (particles [1, 3, 0, 4] [0, 0, 0, 0] [1, 2, 3, 4]) 1 3 =
       Inr (particles [1, 3, 0, 4] [0, 0, 0, 0] [1, 2, 0, 0])
   \<and> losses_energy_cut (particles [1, 3, 0, 4] [0, 0, 0, 0] [1, 2, 3, 4]) (-1) 1 =
       Inr (particles [1, 3, 0, 4] [0, 0, 0, 0] [1, 2, 3, 4])
   \<and> ((0 - 1) * (3 - 0) < (0::real)) = (0 \<notin> {1..3::real})"
  using losses_cut_marks_outside [of "particles [1, 3, 0, 4] [0, 0, 0, 0] [1, 2, 3, 4]" 1 3 "-1" 1]
  by (simp add: particles_def)

section \<open>The constructor\<close>

lemma Beam_init_fields:
  assumes "Beam_init gp n I = Inr b"
  shows "theta b = None \<and> delta b = None \<and> z b = None \<and> dp b = None
       \<and> 0 < py_int n
       \<and> dt b = replicate (nat (py_int n)) 0 \<and> dE b = replicate (nat (py_int n)) 0
       \<and> id_arr b = [1..py_int n] \<and> ratio b = I / real_of_int (py_int n)"
  using assms unfolding Beam_init_def and_then_Inr_iff np_zeros_def py_div_def
  by (auto split: if_splits)

text \<open>
  Claim C10, as the code has it. A particle count that \<open>int()\<close> turns into zero makes
  the constructor raise: no beam results, whatever the configuration and the intensity.
  When the configuration has its four samples, the two empty arrays are allocated and
  the exception is the ZeroDivisionError of \<open>self.intensity/self.n_macroparticles\<close>,
  a Python float divided by the Python int 0.
\<close>

theorem Beam_init_zero_count:
  assumes "py_int n = 0"
  shows "(\<forall>b. Beam_init gp n I \<noteq> Inr b)
       \<and> (index00 (gp_beta gp) \<noteq> Inl IndexError \<and> index00 (gp_gamma gp) \<noteq> Inl IndexError
          \<and> index00 (gp_energy gp) \<noteq> Inl IndexError \<and> index00 (gp_momentum gp) \<noteq> Inl IndexError
          \<longrightarrow> np_zeros (py_int n) = Inr [] \<and> Beam_init gp n I = Inl ZeroDivisionError)"
proof -
  have no_beam: "\<forall>b. Beam_init gp n I \<noteq> Inr b"
    using assms Beam_init_fields [of gp n I] by fastforce
  have samples: "\<exists>x. index00 xs = Inr x" if "index00 xs \<noteq> Inl IndexError"
    for xs :: "real list list"
    using that by (auto simp: index00_def split: list.splits)
  have "Beam_init gp n I = Inl ZeroDivisionError"
    if given: "index00 (gp_beta gp) \<noteq> Inl IndexError" "index00 (gp_gamma gp) \<noteq> Inl IndexError"
       "index00 (gp_energy gp) \<noteq> Inl IndexError" "index00 (gp_momentum gp) \<noteq> Inl IndexError"
  proof -
    obtain b0 g0 e0 m0 where "index00 (gp_beta gp) = Inr b0" "index00 (gp_gamma gp) = Inr g0"
      "index00 (gp_energy gp) = Inr e0" "index00 (gp_momentum gp) = Inr m0"
      using samples [OF given(1)] samples [OF given(2)] samples [OF given(3)]
        samples [OF given(4)]
      by blast
    with assms show ?thesis
      by (simp add: Beam_init_def np_zeros_def py_div_def)
  qed
  with no_beam assms show ?thesis
    by (simp add: np_zeros_def)
qed

theorem Beam_init_zero_count_witness:
  "py_int (1 / 2) = 0 \<and> Beam_init sample_parameters (1 / 2) 1 = Inl ZeroDivisionError"
proof -
  have zero: "py_int (1 / 2) = 0"
    by (simp add: py_int_def)
  have "index00 (gp_beta sample_parameters) \<noteq> Inl IndexError
      \<and> index00 (gp_gamma sample_parameters) \<noteq> Inl IndexError
      \<and> index00 (gp_energy sample_parameters) \<noteq> Inl IndexError
      \<and> index00 (gp_momentum sample_parameters) \<noteq> Inl IndexError"
    by (simp add: sample_parameters_def index00_def)
  with zero Beam_init_zero_count [OF zero, of sample_parameters 1] show ?thesis
    by simp
qed

text \<open>
  The run that the claim describes: count 0, intensity \<open>1e11\<close>. It does not give a
  beam with an undefined ratio; it raises.
\<close>

theorem Beam_init_count_zero_raises:
  "Beam_init sample_parameters 0 (10 ^ 11) = Inl ZeroDivisionError"
  by (simp add: Beam_init_def np_zeros_def py_div_def sample_parameters_def index00_def
      py_int_def)

section \<open>Beams of the constructor and the trackers\<close>

text \<open>
  Claim C4. A beam that the constructor returns has the coordinate arrays \<open>dt\<close>,
  \<open>dE\<close> and \<open>id\<close> and none of \<open>theta\<close>, \<open>delta\<close>, \<open>z\<close>, \<open>dp\<close>. On such
  a beam \<open>Kick.track\<close> and \<open>Drift.track\<close> (with any solver, on any ring) raise
  \<open>AttributeError\<close> at their first read of \<open>beam.theta\<close>, and \<open>LinearMap.track\<close>
  raises it at its read of \<open>beam.z\<close>; none of them returns a beam.
\<close>

theorem constructor_beam_not_trackable:
  assumes "Beam_init gp n I = Inr b"
  shows "theta b = None \<and> delta b = None \<and> z b = None \<and> dp b = None
       \<and> Kick_track k b = Inl (AttributeError ''theta'')
       \<and> Drift_track d (b, r) = Inl (AttributeError ''theta'')
       \<and> LinearMap_track lm b = Inl (AttributeError ''z'')"
  using Beam_init_fields [OF assms]
  by (simp add: Kick_track_def Drift_track_def drift_full_def LinearMap_track_def attr_def
      Let_def)

theorem constructor_beam_not_trackable_witness:
  "Beam_init sample_parameters 1 1 = Inr (particles [0] [0] [1])
   \<and> Kick_track \<lparr>k_harmonic = 1, k_voltage = 3, k_phi_offset = 0\<rparr> (particles [0] [0] [1])
       = Inl (AttributeError ''theta'')
   \<and> Drift_track \<lparr>solver = ''simple''\<rparr> (particles [0] [0] [1], sample_ring)
       = Inl (AttributeError ''theta'')
   \<and> LinearMap_track \<lparr>lm_circumference = 2, alpha = 1, Qs = 1 / 4\<rparr> (particles [0] [0] [1])
       = Inl (AttributeError ''z'')"
proof -
  have built: "Beam_init sample_parameters 1 1 = Inr (particles [0] [0] [1])"
    by (simp add: Beam_init_def np_zeros_def py_div_def sample_parameters_def index00_def
        py_int_def particles_def)
  show ?thesis
    using built constructor_beam_not_trackable [OF built,
        of "\<lparr>k_harmonic = 1, k_voltage = 3, k_phi_offset = 0\<rparr>" "\<lparr>solver = ''simple''\<rparr>"
           sample_ring "\<lparr>lm_circumference = 2, alpha = 1, Qs = 1 / 4\<rparr>"]
    by simp
qed

section \<open>The kicks\<close>

lemma py_index_nonneg:
  "py_index a i = Inr x \<Longrightarrow> 0 \<le> i \<Longrightarrow> nat i < length a \<and> x = a ! nat i"
  by (auto simp: py_index_def Let_def split: if_splits)

lemma Kick_init_captures:
  assumes "Kick_init r i = Inr k"
  shows "py_index (harmonic r) i = Inr (k_harmonic k)
       \<and> py_index (voltage r) i = Inr (k_voltage k)
       \<and> py_index (phi_offset r) i = Inr (k_phi_offset k)"
  using assms unfolding Kick_init_def and_then_Inr_iff by auto

lemma Kick_track_eq:
  assumes "theta b = Some th" and "length th = length (dE b)"
  shows "Kick_track k b =
           Inr (b\<lparr>dE := map2 (\<lambda>x t. x + e * k_voltage k * sin (k_harmonic k * t + k_phi_offset k))
                          (dE b) th\<rparr>)"
  using assms by (simp add: Kick_track_def attr_def np_iadd_def zip_map2 case_prod_unfold)

text \<open>
  Claim C8. A Kick built from the ring at index \<open>i\<close> holds the ring's harmonic,
  voltage and phase offset of that index (entry \<open>i\<close> of each list for an index that
  is not negative). On a beam that has a \<open>theta\<close> array of the length of \<open>dE\<close>, its
  \<open>track\<close> returns the beam with \<open>e * voltage * sin (harmonic * theta[j] + phi_offset)\<close>
  added to \<open>dE[j]\<close> for every particle \<open>j\<close>, and with every other field as it was.
\<close>

theorem Kick_track_effect:
  assumes "Kick_init r i = Inr k"
    and "theta b = Some th"
    and "length th = length (dE b)"
  shows "py_index (harmonic r) i = Inr (k_harmonic k)
       \<and> py_index (voltage r) i = Inr (k_voltage k)
       \<and> py_index (phi_offset r) i = Inr (k_phi_offset k)
       \<and> (0 \<le> i \<longrightarrow> k_harmonic k = harmonic r ! nat i \<and> k_voltage k = voltage r ! nat i
                  \<and> k_phi_offset k = phi_offset r ! nat i)
       \<and> Kick_track k b =
           Inr (b\<lparr>dE := map2 (\<lambda>x t. x + e * k_voltage k * sin (k_harmonic k * t + k_phi_offset k))
                          (dE b) th\<rparr>)"
  using Kick_init_captures [OF assms(1)] Kick_track_eq [OF assms(2,3), of k]
  by (auto dest: py_index_nonneg)

theorem Kick_track_effect_witness:
  "Kick_init sample_ring 0 = Inr \<lparr>k_harmonic = 1, k_voltage = 3, k_phi_offset = 0\<rparr>
   \<and> Kick_track \<lparr>k_harmonic = 1, k_voltage = 3, k_phi_offset = 0\<rparr>
        ((particles [0, 0] [1, 2] [1, 2])\<lparr>theta := Some [0, pi / 2]\<rparr>)
      = Inr ((particles [0, 0] [1, 2 + e * 3] [1, 2])\<lparr>theta := Some [0, pi / 2]\<rparr>)"
proof -
  have built: "Kick_init sample_ring 0 = Inr \<lparr>k_harmonic = 1, k_voltage = 3, k_phi_offset = 0\<rparr>"
    by (simp add: Kick_init_def sample_ring_def py_index_def)
  have th: "theta ((particles [0, 0] [1, 2] [1, 2])\<lparr>theta := Some [0, pi / 2]\<rparr>)
            = Some [0, pi / 2]"
    by simp
  have len: "length [0, pi / 2]
             = length (dE ((particles [0, 0] [1, 2] [1, 2])\<lparr>theta := Some [0, pi / 2]\<rparr>))"
    by (simp add: particles_def)
  show ?thesis
    using built Kick_track_effect [OF built th len]
    by (simp add: particles_def)
qed

text \<open>
  Claim C7. \<open>Kick_acceleration.track\<close> always returns. It adds
  \<open>- ((beta_i(beam) + beta_f(beam)) / 2) * c * p_increment\<close> to \<open>dE\<close> of every
  particle, both betas taken from the ring before the counter moves, and then adds one to
  the ring's counter. The beam differs from the old one in \<open>dE\<close> only, the ring in
  \<open>counter\<close> only.
\<close>

theorem Kick_acceleration_track_effect:
  "\<exists>b' r'. Kick_acceleration_track ka (b, r) = (b', r')
       \<and> length (dE b') = length (dE b)
       \<and> (\<forall>i < length (dE b).
             dE b' ! i = dE b ! i + - ((beta_i r b + beta_f r b) / 2) * c * p_increment ka)
       \<and> counter r' = counter r + 1
       \<and> b' = b\<lparr>dE := dE b'\<rparr>
       \<and> r' = r\<lparr>counter := counter r'\<rparr>"
  by (simp add: Kick_acceleration_track_def field_simps)

theorem Kick_acceleration_track_effect_witness:
  "0 < length (dE (particles [0, 0] [1, 2] [1, 2]))
   \<and> (\<exists>b' r'. Kick_acceleration_track \<lparr>p_increment = 2\<rparr>
                  (particles [0, 0] [1, 2] [1, 2], sample_ring) = (b', r')
         \<and> dE b' ! 0 = 1 - c \<and> counter r' = 1)"
  using Kick_acceleration_track_effect
          [of "\<lparr>p_increment = 2\<rparr>" "particles [0, 0] [1, 2] [1, 2]" sample_ring]
  by (auto simp: particles_def sample_ring_def beta_i_def beta_f_def)

section \<open>The drift\<close>

lemma np_binop_same_length:
  "length xs = length ys \<Longrightarrow> np_binop f xs ys = Inr (map (\<lambda>i. f (xs ! i) (ys ! i)) [0..<length xs])"
  by (auto simp: np_binop_def intro!: nth_equalityI)

lemma store_Some: "store (map (\<lambda>i. Some (f i)) xs) = Inr (map f xs)"
  by (auto simp: store_def)

lemma drift_full_shape:
  assumes "theta b = Some th" and "delta b = Some de"
    and "length de = length th" and "length (eta r b de) = length de"
  shows "\<exists>full. drift_full b r = Inr full"
  using assms by (simp add: drift_full_def attr_def Let_def np_binop_same_length)

lemma drift_simple_shape:
  assumes "theta b = Some th" and "delta b = Some de" and "length de = length th"
  shows "\<exists>simple. drift_simple b r = Inr simple"
  using assms by (simp add: drift_simple_def attr_def np_binop_same_length)

lemma drift_full_value:
  assumes "theta b = Some th" and "delta b = Some de"
    and "length de = length th" and "length (eta r b de) = length de"
    and "beta_i r b \<noteq> 0" and "circumference r \<noteq> 0"
    and "\<forall>i < length de. 1 - eta r b de ! i * de ! i \<noteq> 0"
  shows "drift_full b r =
           Inr (map (\<lambda>i. Some (beta_f r b / beta_i r b * th ! i
                           + 2 * pi * (1 / (1 - eta r b de ! i * de ! i) - 1)
                             * ring_length r / circumference r)) [0..<length th])"
  using assms
  by (simp add: drift_full_def attr_def Let_def np_binop_same_length fdiv_def fmul_def
      fsub_def fadd_def)

lemma drift_simple_value:
  assumes "theta b = Some th" and "delta b = Some de"
    and "length de = length th" and "circumference r \<noteq> 0"
  shows "drift_simple b r =
           Inr (map (\<lambda>i. Some (th ! i + 2 * pi * eta0 r b (alpha_array r) * de ! i
                                     * ring_length r / circumference r)) [0..<length th])"
  using assms
  by (simp add: drift_simple_def attr_def np_binop_same_length fdiv_def fadd_def)

lemma Drift_track_frame:
  assumes "Drift_track d (b, r) = Inr (b', r')"
  shows "b' = b\<lparr>theta := theta b'\<rparr> \<and> r' = r"
  using assms unfolding Drift_track_def
  by (auto simp: and_then_Inr_iff split: if_splits)

text \<open>
  Claim C5. On a beam that has \<open>theta\<close> and \<open>delta\<close> arrays of one length (and a
  ring whose \<open>eta\<close> answers with an array of that length), \<open>Drift.track\<close> with the
  solver \<open>full\<close> returns the beam with
  \<open>beta_f / beta_i * theta + 2 * pi * (1 / (1 - eta * delta) - 1) * length / circumference\<close>
  in place of \<open>theta\<close>, particle by particle, where no divisor of the formula is zero;
  with the solver \<open>simple\<close> it returns the beam with
  \<open>theta + 2 * pi * eta0 * delta * length / circumference\<close> in place of \<open>theta\<close>,
  where the circumference is not zero. Whenever it returns, with whatever solver, the
  beam differs from the old one in \<open>theta\<close> only (so \<open>dE\<close> and \<open>delta\<close> are the
  old ones) and the ring is the old one.
\<close>

theorem Drift_track_effect:
  assumes "theta b = Some th" and "delta b = Some de"
    and "length de = length th" and "length (eta r b de) = length de"
  shows "(solver d = ''full'' \<and> beta_i r b \<noteq> 0 \<and> circumference r \<noteq> 0
          \<and> (\<forall>i < length de. 1 - eta r b de ! i * de ! i \<noteq> 0) \<longrightarrow>
            Drift_track d (b, r) =
              Inr (b\<lparr>theta := Some (map (\<lambda>i. beta_f r b / beta_i r b * th ! i
                                + 2 * pi * (1 / (1 - eta r b de ! i * de ! i) - 1)
                                  * ring_length r / circumference r) [0..<length th])\<rparr>, r))
       \<and> (solver d = ''simple'' \<and> circumference r \<noteq> 0 \<longrightarrow>
            Drift_track d (b, r) =
              Inr (b\<lparr>theta := Some (map (\<lambda>i. th ! i + 2 * pi * eta0 r b (alpha_array r) * de ! i
                                          * ring_length r / circumference r) [0..<length th])\<rparr>, r))
       \<and> (\<forall>b' r'. Drift_track d (b, r) = Inr (b', r') \<longrightarrow>
            b' = b\<lparr>theta := theta b'\<rparr> \<and> dE b' = dE b \<and> delta b' = delta b \<and> r' = r)"
proof (intro conjI impI allI)
  assume full: "solver d = ''full'' \<and> beta_i r b \<noteq> 0 \<and> circumference r \<noteq> 0
          \<and> (\<forall>i < length de. 1 - eta r b de ! i * de ! i \<noteq> 0)"
  obtain simple where "drift_simple b r = Inr simple"
    using drift_simple_shape [OF assms(1-3)] by blast
  with full drift_full_value [OF assms, of ] show "Drift_track d (b, r) =
              Inr (b\<lparr>theta := Some (map (\<lambda>i. beta_f r b / beta_i r b * th ! i
                                + 2 * pi * (1 / (1 - eta r b de ! i * de ! i) - 1)
                                  * ring_length r / circumference r) [0..<length th])\<rparr>, r)"
    by (simp add: Drift_track_def store_Some)
next
  assume simple: "solver d = ''simple'' \<and> circumference r \<noteq> 0"
  obtain full where "drift_full b r = Inr full"
    using drift_full_shape [OF assms] by blast
  with simple drift_simple_value [OF assms(1-3), of r] show "Drift_track d (b, r) =
              Inr (b\<lparr>theta := Some (map (\<lambda>i. th ! i + 2 * pi * eta0 r b (alpha_array r) * de ! i
                                          * ring_length r / circumference r) [0..<length th])\<rparr>, r)"
    by (simp add: Drift_track_def store_Some)
next
  fix b' r' assume ret: "Drift_track d (b, r) = Inr (b', r')"
  from Drift_track_frame [OF ret] have eq: "b' = b\<lparr>theta := theta b'\<rparr>" and "r' = r"
    by simp_all
  then show "b' = b\<lparr>theta := theta b'\<rparr>" "r' = r" by simp_all
  from eq have "dE b' = dE (b\<lparr>theta := theta b'\<rparr>)" "delta b' = delta (b\<lparr>theta := theta b'\<rparr>)"
    by simp_all
  then show "dE b' = dE b" "delta b' = delta b" by simp_all
qed

theorem Drift_track_effect_witness:
  "theta sample_beam = Some [0, 1] \<and> delta sample_beam = Some [1, - 1]
   \<and> length (eta sample_ring sample_beam [1, - 1]) = 2
   \<and> Drift_track \<lparr>solver = ''full''\<rparr> (sample_beam, sample_ring)
       = Inr (sample_beam\<lparr>theta := Some [pi, 1 - pi / 3]\<rparr>, sample_ring)
   \<and> Drift_track \<lparr>solver = ''simple''\<rparr> (sample_beam, sample_ring)
       = Inr (sample_beam\<lparr>theta := Some [pi / 2, 1 - pi / 2]\<rparr>, sample_ring)"
proof -
  have th: "theta sample_beam = Some [0, 1]" and de: "delta sample_beam = Some [1, - 1]"
    by (simp_all add: sample_beam_def)
  have len: "length [1, - 1 :: real] = length [0, 1 :: real]"
    by simp
  have et: "eta sample_ring sample_beam [1, - 1] = [1 / 2, 1 / 2]"
    by (simp add: eta_def sample_ring_def)
  have shape: "length (eta sample_ring sample_beam [1, - 1]) = length [1, - 1 :: real]"
    by (simp add: et)
  have nz: "\<forall>i < length [1, - 1 :: real].
              1 - eta sample_ring sample_beam [1, - 1] ! i * [1, - 1] ! i \<noteq> 0"
    by (simp add: et less_Suc_eq)
  have ring: "beta_i sample_ring sample_beam = 1 / 2" "beta_f sample_ring sample_beam = 1 / 2"
    "circumference sample_ring = 2" "ring_length sample_ring = 1"
    "eta0 sample_ring sample_beam (alpha_array sample_ring) = 1 / 2"
    by (simp_all add: beta_i_def beta_f_def eta0_def sample_ring_def)
  have idx: "[0..<length [0, 1 :: real]] = [0, 1]"
    by (simp add: upt_conv_Cons)
  have pre_full: "solver \<lparr>solver = ''full''\<rparr> = ''full'' \<and> beta_i sample_ring sample_beam \<noteq> 0
      \<and> circumference sample_ring \<noteq> 0
      \<and> (\<forall>i < length [1, - 1 :: real].
            1 - eta sample_ring sample_beam [1, - 1] ! i * [1, - 1] ! i \<noteq> 0)"
    using nz by (simp add: ring)
  have pre_simple: "solver \<lparr>solver = ''simple''\<rparr> = ''simple'' \<and> circumference sample_ring \<noteq> 0"
    by (simp add: ring)
  note full = Drift_track_effect [OF th de len shape, of "\<lparr>solver = ''full''\<rparr>",
      THEN conjunct1, rule_format, OF pre_full]
  note simple = Drift_track_effect [OF th de len shape, of "\<lparr>solver = ''simple''\<rparr>",
      THEN conjunct2, THEN conjunct1, rule_format, OF pre_simple]
  have "Drift_track \<lparr>solver = ''full''\<rparr> (sample_beam, sample_ring)
       = Inr (sample_beam\<lparr>theta := Some [pi, 1 - pi / 3]\<rparr>, sample_ring)"
    using full by (simp add: et ring idx)
  moreover have "Drift_track \<lparr>solver = ''simple''\<rparr> (sample_beam, sample_ring)
       = Inr (sample_beam\<lparr>theta := Some [pi / 2, 1 - pi / 2]\<rparr>, sample_ring)"
    using simple by (simp add: et ring idx)
  ultimately show ?thesis
    using th de shape by simp
qed

text \<open>
  Claim C6. Building a Drift stores the solver string, whatever it is, and cannot fail.
  With a string other than \<open>full\<close> and \<open>simple\<close> no call of \<open>track\<close> ever returns,
  on any beam and any ring, so no solver is used by default. On every call whose two
  formulas can be computed (the beam has \<open>theta\<close> and \<open>delta\<close> arrays of one
  length), the call prints the message about the unrecognized solver and ends the
  process with \<open>sys.exit()\<close>.
\<close>

theorem Drift_unrecognized_solver:
  assumes "sv \<noteq> ''full''" and "sv \<noteq> ''simple''"
  shows "Drift_init r0 sv = \<lparr>solver = sv\<rparr>
       \<and> (\<forall>b r s'. Drift_track (Drift_init r0 sv) (b, r) \<noteq> Inr s')
       \<and> (\<forall>b r th de. theta b = Some th \<and> delta b = Some de \<and> length de = length th
              \<and> length (eta r b de) = length de \<longrightarrow>
            Drift_track (Drift_init r0 sv) (b, r) =
              Inl (SystemExit ''ERROR: Choice of longitudinal solver not recognized! Aborting...''))"
proof (intro conjI allI impI)
  show "Drift_init r0 sv = \<lparr>solver = sv\<rparr>"
    by (simp add: Drift_init_def)
next
  fix b r s'
  show "Drift_track (Drift_init r0 sv) (b, r) \<noteq> Inr s'"
    using assms by (auto simp: Drift_track_def Drift_init_def and_then_Inr_iff)
next
  fix b r th de
  assume h: "theta b = Some th \<and> delta b = Some de \<and> length de = length th
              \<and> length (eta r b de) = length de"
  obtain full where "drift_full b r = Inr full"
    using drift_full_shape [of b th de r] h by blast
  moreover obtain simple where "drift_simple b r = Inr simple"
    using drift_simple_shape [of b th de r] h by blast
  ultimately show "Drift_track (Drift_init r0 sv) (b, r) =
              Inl (SystemExit ''ERROR: Choice of longitudinal solver not recognized! Aborting...'')"
    using assms by (simp add: Drift_track_def Drift_init_def)
qed

theorem Drift_unrecognized_solver_witness:
  "''fast'' \<noteq> ''full'' \<and> ''fast'' \<noteq> ''simple''
   \<and> Drift_track (Drift_init sample_ring ''fast'') (sample_beam, sample_ring) =
       Inl (SystemExit ''ERROR: Choice of longitudinal solver not recognized! Aborting...'')"
proof -
  have a: "''fast'' \<noteq> ''full''" and b: "''fast'' \<noteq> ''simple''"
    by simp_all
  have h: "theta sample_beam = Some [0, 1] \<and> delta sample_beam = Some [1, - 1]
           \<and> length [1, - 1 :: real] = length [0, 1 :: real]
           \<and> length (eta sample_ring sample_beam [1, - 1]) = length [1, - 1 :: real]"
    by (simp add: sample_beam_def eta_def sample_ring_def)
  note exits = Drift_unrecognized_solver [OF a b, of sample_ring, THEN conjunct2, THEN conjunct2,
      rule_format, of sample_beam "[0, 1]" "[1, - 1]" sample_ring]
  show ?thesis
    using a b exits [OF h] by (intro conjI)
qed

section \<open>The linear map\<close>

lemma rotation_invariant:
  fixes k k1 S C x y :: real
  assumes kk: "k * k1 = 1" and sc: "S\<^sup>2 + C\<^sup>2 = 1"
  shows "(y * C + k * x * S)\<^sup>2 + k\<^sup>2 * (x * C - k1 * y * S)\<^sup>2 = y\<^sup>2 + k\<^sup>2 * x\<^sup>2"
proof -
  have "(y * C + k * x * S)\<^sup>2 + k\<^sup>2 * (x * C - k1 * y * S)\<^sup>2
        = y\<^sup>2 * (C\<^sup>2 + (k * k1)\<^sup>2 * S\<^sup>2) + k\<^sup>2 * x\<^sup>2 * (S\<^sup>2 + C\<^sup>2)
          + 2 * k * x * y * S * C * (1 - k * k1)"
    by (simp add: power2_eq_square algebra_simps)
  also have "\<dots> = y\<^sup>2 * (S\<^sup>2 + C\<^sup>2) + k\<^sup>2 * x\<^sup>2 * (S\<^sup>2 + C\<^sup>2)"
    by (simp add: kk add.commute)
  finally show ?thesis
    by (simp add: sc)
qed

text \<open>
  Claim C9, as the code has it. Take a linear map with \<open>Qs \<noteq> 0\<close> and a circumference
  that is not zero, and a beam with \<open>beta \<noteq> 0\<close>, \<open>gamma \<noteq> 0\<close> and
  \<open>eta = alpha - gamma\<^sup>-\<^sup>2 \<noteq> 0\<close> that has \<open>z\<close> and \<open>dp\<close> arrays of one
  length. Then \<open>omega_s \<noteq> 0\<close>, one call of \<open>LinearMap.track\<close> returns the beam with new
  \<open>z\<close> and \<open>dp\<close> and nothing else changed, the new coordinates are the two formulas
  of the source, and for every particle \<open>dp\<^sup>2 + (omega_s / (eta * c))\<^sup>2 * z\<^sup>2\<close> is the same
  real number before and after. The call has the map and the beam as its only inputs and
  the beam as its only result: there is no ring and no turn counter in it.
\<close>

theorem LinearMap_track_rotation:
  assumes "z b = Some z0" and "dp b = Some dp0" and "length z0 = length dp0"
    and "Qs lm \<noteq> 0" and "lm_circumference lm \<noteq> 0"
    and "beta b \<noteq> 0" and "gamma b \<noteq> 0"
    and "alpha lm - 1 / (gamma b)\<^sup>2 \<noteq> 0"
  shows "let eta' = alpha lm - 1 / (gamma b)\<^sup>2;
             omega_s = Qs lm * (2 * pi * beta b * c / lm_circumference lm);
             dQs = 2 * pi * Qs lm
         in \<exists>z1 dp1.
              LinearMap_track lm b = Inr (b\<lparr>z := Some z1, dp := Some dp1\<rparr>)
            \<and> length z1 = length z0 \<and> length dp1 = length z0
            \<and> (\<forall>i < length z0.
                  z1 ! i = z0 ! i * cos dQs - eta' * c / omega_s * dp0 ! i * sin dQs
                \<and> dp1 ! i = dp0 ! i * cos dQs + omega_s / eta' / c * z0 ! i * sin dQs
                \<and> (dp1 ! i)\<^sup>2 + (omega_s / (eta' * c))\<^sup>2 * (z1 ! i)\<^sup>2
                    = (dp0 ! i)\<^sup>2 + (omega_s / (eta' * c))\<^sup>2 * (z0 ! i)\<^sup>2)"
proof -
  define eta' where "eta' = alpha lm - 1 / (gamma b)\<^sup>2"
  define omega_s where "omega_s = Qs lm * (2 * pi * beta b * c / lm_circumference lm)"
  define dQs where "dQs = 2 * pi * Qs lm"
  define z1 where "z1 = map (\<lambda>i. z0 ! i * cos dQs - eta' * c / omega_s * dp0 ! i * sin dQs) [0..<length z0]"
  define dp1 where "dp1 = map (\<lambda>i. dp0 ! i * cos dQs + omega_s / eta' / c * z0 ! i * sin dQs) [0..<length z0]"
  have c0: "c \<noteq> 0" by (simp add: c_def)
  have w0: "omega_s \<noteq> 0"
    using assms(4-6) c0 by (simp add: omega_s_def)
  have e0: "eta' \<noteq> 0"
    using assms(8) by (simp add: eta'_def)
  have g0: "(gamma b)\<^sup>2 \<noteq> 0"
    using assms(7) by simp
  have scalars: "fsub (Some (alpha lm)) (fdiv (Some 1) (Some ((gamma b)\<^sup>2))) = Some eta'"
    "fmul (Some (Qs lm)) (fdiv (Some (2 * pi * beta b * c)) (Some (lm_circumference lm)))
       = Some omega_s"
    using g0 assms(5) by (simp_all add: eta'_def omega_s_def)
  have run: "LinearMap_track lm b = Inr (b\<lparr>z := Some z1, dp := Some dp1\<rparr>)"
    unfolding LinearMap_track_def Let_def scalars
    using assms(1-3) w0 e0 c0
    by (simp add: attr_def np_binop_maps store_Some z1_def dp1_def dQs_def)
  have kk: "omega_s / (eta' * c) * (eta' * c / omega_s) = 1"
    using w0 e0 c0 by simp
  have inv: "(dp1 ! i)\<^sup>2 + (omega_s / (eta' * c))\<^sup>2 * (z1 ! i)\<^sup>2
                    = (dp0 ! i)\<^sup>2 + (omega_s / (eta' * c))\<^sup>2 * (z0 ! i)\<^sup>2" if "i < length z0" for i
  proof -
    have "dp1 ! i = dp0 ! i * cos dQs + omega_s / (eta' * c) * z0 ! i * sin dQs"
      using that by (simp add: dp1_def divide_divide_eq_left)
    moreover have "z1 ! i = z0 ! i * cos dQs - eta' * c / omega_s * dp0 ! i * sin dQs"
      using that by (simp add: z1_def)
    ultimately show ?thesis
      using rotation_invariant [where S = "sin dQs" and C = "cos dQs" and x = "z0 ! i"
            and y = "dp0 ! i", OF kk sin_cos_squared_add]
      by simp
  qed
  have "length z1 = length z0" "length dp1 = length z0"
    by (simp_all add: z1_def dp1_def)
  moreover have "\<forall>i < length z0.
                  z1 ! i = z0 ! i * cos dQs - eta' * c / omega_s * dp0 ! i * sin dQs
                \<and> dp1 ! i = dp0 ! i * cos dQs + omega_s / eta' / c * z0 ! i * sin dQs"
    by (simp add: z1_def dp1_def)
  ultimately show ?thesis
    using run inv unfolding Let_def eta'_def [symmetric] omega_s_def [symmetric] dQs_def [symmetric]
    by blast
qed

theorem LinearMap_track_rotation_witness:
  "z position_beam = Some [1, 0] \<and> dp position_beam = Some [0, 1]
   \<and> Qs sample_map \<noteq> 0 \<and> lm_circumference sample_map \<noteq> 0
   \<and> beta position_beam \<noteq> 0 \<and> gamma position_beam \<noteq> 0
   \<and> alpha sample_map - 1 / (gamma position_beam)\<^sup>2 \<noteq> 0
   \<and> (\<exists>z1 dp1. LinearMap_track sample_map position_beam
                   = Inr (position_beam\<lparr>z := Some z1, dp := Some dp1\<rparr>)
               \<and> length z1 = 2 \<and> length dp1 = 2)"
proof -
  have zb: "z position_beam = Some [1, 0]" and pb: "dp position_beam = Some [0, 1]"
    by (simp_all add: position_beam_def)
  have len: "length [1, 0 :: real] = length [0, 1 :: real]"
    by simp
  have q: "Qs sample_map \<noteq> 0" and ci: "lm_circumference sample_map \<noteq> 0"
    by (simp_all add: sample_map_def LinearMap_init_def)
  have be: "beta position_beam \<noteq> 0" and ga: "gamma position_beam \<noteq> 0"
    by (simp_all add: position_beam_def particles_def)
  have et: "alpha sample_map - 1 / (gamma position_beam)\<^sup>2 \<noteq> 0"
    by (simp add: position_beam_def particles_def sample_map_def LinearMap_init_def)
  from LinearMap_track_rotation [OF zb pb len q ci be ga et]
  have "\<exists>z1 dp1. LinearMap_track sample_map position_beam
                   = Inr (position_beam\<lparr>z := Some z1, dp := Some dp1\<rparr>)
               \<and> length z1 = 2 \<and> length dp1 = 2"
    unfolding Let_def by (elim exE conjE) (intro exI conjI, assumption, simp_all)
  with zb pb q ci be ga et show ?thesis
    by (intro conjI)
qed

text \<open>
  The two conditions of the claim do not make \<open>omega_s\<close> non-zero. For a beam at rest
  (\<open>beta = 0\<close>, \<open>gamma = 1\<close>) with \<open>alpha = 2\<close> and \<open>Qs = 1/4\<close>, \<open>eta = 1\<close> and
  \<open>omega_s = 0\<close>: the source divides \<open>eta * c\<close> by zero, the new \<open>z\<close> is not a real
  number, and nothing is preserved.
\<close>

theorem LinearMap_track_beam_at_rest:
  "Qs (LinearMap_init 1 2 (1 / 4)) \<noteq> 0
   \<and> alpha (LinearMap_init 1 2 (1 / 4))
       - 1 / (gamma ((particles [0] [0] [1])\<lparr>beta := 0, gamma := 1, z := Some [1], dp := Some [1]\<rparr>))\<^sup>2
       \<noteq> 0
   \<and> LinearMap_track (LinearMap_init 1 2 (1 / 4))
        ((particles [0] [0] [1])\<lparr>beta := 0, gamma := 1, z := Some [1], dp := Some [1]\<rparr>)
       = Inl NonFinite"
  by (simp add: LinearMap_init_def LinearMap_track_def Let_def attr_def np_binop_def store_def
      fsub_def fdiv_def fmul_def fadd_def)

section \<open>The statistics\<close>

lemma distinct_np_where: "distinct (np_where cond)"
  by (simp add: np_where_def)

lemma np_where_ids:
  "set (np_where (map (\<lambda>i. i \<noteq> 0) (id_arr b))) = alive b"
  by (auto simp: set_np_where alive_def)

lemma np_mean_take:
  assumes "distinct idx" and "idx \<noteq> []"
  shows "np_mean (map (\<lambda>i. f i) idx) = Some ((\<Sum>i \<in> set idx. f i) / real (card (set idx)))"
  using assms by (simp add: np_mean_def sum_list_distinct_conv_sum_set distinct_card)

lemma np_std_take:
  assumes "distinct idx" and "idx \<noteq> []"
  shows "np_std (map (\<lambda>i. xs ! i) idx) = Some (std_over (set idx) xs)"
proof -
  have m: "np_mean (map (\<lambda>i. xs ! i) idx) = Some (mean_over (set idx) xs)"
    using np_mean_take [OF assms, of "\<lambda>i. xs ! i"] by (simp add: mean_over_def)
  have "map (\<lambda>x. \<bar>x - mean_over (set idx) xs\<bar>\<^sup>2) (map (\<lambda>i. xs ! i) idx)
        = map (\<lambda>i. (xs ! i - mean_over (set idx) xs)\<^sup>2) idx"
    by simp
  then show ?thesis
    using np_mean_take [OF assms, of "\<lambda>i. (xs ! i - mean_over (set idx) xs)\<^sup>2"]
    by (simp add: np_std_def m fsqrt_def std_over_def o_def)
qed

text \<open>
  Claim C2. On a beam whose three arrays have one length and that has an alive particle,
  \<open>statistics\<close> returns the beam with: \<open>mean_dt\<close> and \<open>mean_dE\<close> the arithmetic
  means of \<open>dt\<close> and \<open>dE\<close> over the alive indices; \<open>sigma_dt\<close> and \<open>sigma_dE\<close> the
  square roots of the mean squared deviation over the same indices, the sum divided by
  their number; \<open>epsn_rms_l = pi * sigma_dE * sigma_dt\<close>; \<open>n_macroparticles_lost\<close> the
  number of indices whose identifier is zero; and nothing else changed.
\<close>

theorem statistics_over_alive:
  assumes "length (dt b) = length (id_arr b)"
    and "length (dE b) = length (id_arr b)"
    and "\<exists>i < length (id_arr b). id_arr b ! i \<noteq> 0"
  shows "statistics b =
           Inr (b\<lparr> mean_dt := Some (mean_over (alive b) (dt b)),
                   mean_dE := Some (mean_over (alive b) (dE b)),
                   sigma_dt := Some (std_over (alive b) (dt b)),
                   sigma_dE := Some (std_over (alive b) (dE b)),
                   epsn_rms_l := Some (Some (pi * std_over (alive b) (dE b) * std_over (alive b) (dt b))),
                   n_macroparticles_lost :=
                     int (card {i. i < length (id_arr b) \<and> id_arr b ! i = 0}) \<rparr>)"
proof -
  let ?idx = "np_where (map (\<lambda>i. i \<noteq> 0) (id_arr b))"
  have d: "distinct ?idx" by (rule distinct_np_where)
  have s: "set ?idx = alive b" by (rule np_where_ids)
  have ne: "?idx \<noteq> []"
    using assms(3) s by (auto simp: alive_def simp flip: set_empty)
  have in_dt: "\<forall>i \<in> set ?idx. i < length (dt b)" and in_dE: "\<forall>i \<in> set ?idx. i < length (dE b)"
    using assms(1,2) by (simp_all add: s alive_def)
  have lost: "length (np_where (map (\<lambda>i. i = 0) (id_arr b)))
              = card {i. i < length (id_arr b) \<and> id_arr b ! i = 0}"
    using distinct_card [OF distinct_np_where, of "map (\<lambda>i. i = 0) (id_arr b)"]
    by (simp add: set_np_where cong: conj_cong)
  have means: "np_mean (map (\<lambda>i. dt b ! i) ?idx) = Some (mean_over (alive b) (dt b))"
    "np_mean (map (\<lambda>i. dE b ! i) ?idx) = Some (mean_over (alive b) (dE b))"
    using np_mean_take [OF d ne] by (simp_all add: mean_over_def s)
  have stds: "np_std (map (\<lambda>i. dt b ! i) ?idx) = Some (std_over (alive b) (dt b))"
    "np_std (map (\<lambda>i. dE b ! i) ?idx) = Some (std_over (alive b) (dE b))"
    using np_std_take [OF d ne] by (simp_all add: s)
  show ?thesis
    unfolding statistics_def Let_def
    using in_dt in_dE by (simp add: np_take_def means stds lost)
qed

theorem statistics_over_alive_witness:
  "length (dt (particles [- 1, 0, 1] [- 2, 0, 2] [1, 0, 3])) = 3
   \<and> (\<exists>i < length (id_arr (particles [- 1, 0, 1] [- 2, 0, 2] [1, 0, 3])).
          id_arr (particles [- 1, 0, 1] [- 2, 0, 2] [1, 0, 3]) ! i \<noteq> 0)
   \<and> statistics (particles [- 1, 0, 1] [- 2, 0, 2] [1, 0, 3]) =
       Inr ((particles [- 1, 0, 1] [- 2, 0, 2] [1, 0, 3])
              \<lparr> mean_dt := Some 0, mean_dE := Some 0, sigma_dt := Some 1, sigma_dE := Some 2,
                epsn_rms_l := Some (Some (pi * 2)), n_macroparticles_lost := 1 \<rparr>)"
proof -
  let ?b = "particles [- 1, 0, 1] [- 2, 0, 2] [1, 0, 3]"
  have l1: "length (dt ?b) = length (id_arr ?b)" and l2: "length (dE ?b) = length (id_arr ?b)"
    by (simp_all add: particles_def)
  have ex: "\<exists>i < length (id_arr ?b). id_arr ?b ! i \<noteq> 0"
    by (rule exI [of _ 0]) (simp add: particles_def)
  have al: "alive ?b = {0, 2}"
    by (auto simp: alive_def particles_def less_Suc_eq numeral_3_eq_3 numeral_2_eq_2)
  have lo: "{i. i < length (id_arr ?b) \<and> id_arr ?b ! i = 0} = {1}"
    by (auto simp: particles_def less_Suc_eq numeral_3_eq_3 numeral_2_eq_2)
  have fields: "dt ?b = [- 1, 0, 1]" "dE ?b = [- 2, 0, 2]"
    by (simp_all add: particles_def)
  have m: "mean_over {0, 2} [- 1, 0, 1] = 0" "mean_over {0, 2} [- 2, 0, 2] = 0"
    by (simp_all add: mean_over_def)
  have sd: "std_over {0, 2} [- 1, 0, 1] = 1" "std_over {0, 2} [- 2, 0, 2] = 2"
    using real_sqrt_abs [of 2] by (simp_all add: std_over_def m)
  show ?thesis
    using ex statistics_over_alive [OF l1 l2 ex]
    by (simp add: al lo fields m sd)
qed

section \<open>Turns of the tracker\<close>












end
